theory Spec2Isabelle
  imports Main
begin

section \<open>FlareSolverr: the HTTP surface of \<^verbatim>\<open>src/flaresolverr.py\<close>\<close>

text \<open>
  The module wires a Bottle application: four routes, an error handler for
  everything Bottle turns into an HTTP error, and the start-up script. Each
  handler is embedded as a function of what it reads (the inbound request, the
  thread-local \<^verbatim>\<open>response\<close> object, the collaborating modules) to what it leaves
  behind (the value it returns or the exception it lets escape, the updated
  \<^verbatim>\<open>response\<close>, and the calls it made to its collaborators, in order).
\<close>

subsection \<open>Outcomes of calls\<close>

text \<open>
  Exceptions the module names or lets pass. \<open>RequestException\<close> is
  \<^verbatim>\<open>requests.exceptions.RequestException\<close> (with its subclasses), carrying \<^verbatim>\<open>str(e)\<close>.
  \<open>HTTPError\<close> is Bottle's, with its status and body text; \<^verbatim>\<open>request.json\<close> raises it
  with status 400 for a body that is sent as JSON and is not valid JSON.
  \<open>ValidationError\<close> is the error kind of the specification's taxonomy, carrying the
  offending field. \<open>Exception\<close> stands for every other exception class.
\<close>

datatype exn =
    ValidationError string
  | RequestException string
  | HTTPError int string
  | Exception string

text \<open>
  A call into a collaborator returns a value, raises, or never comes back (a browser
  that does not answer, a socket without timeout).
\<close>

datatype 'a outcome = Returns 'a | Raises exn | Hangs

subsection \<open>Bottle's request and response objects\<close>

text \<open>
  \<^verbatim>\<open>response\<close> is the per-request response object of Bottle; a handler only ever
  assigns \<^verbatim>\<open>response.status\<close> and \<^verbatim>\<open>response.content_type\<close>. Bottle binds a new
  one for each request, with status 200.
\<close>

record response =
  status :: int
  content_type :: string

definition fresh_response :: response where
  "fresh_response = \<lparr>status = 200, content_type = ''text/html; charset=UTF-8''\<rparr>"

text \<open>
  Of the inbound \<^verbatim>\<open>request\<close> the handlers read \<^verbatim>\<open>request.json\<close> (a property of
  Bottle, whose evaluation may raise; its value is a parameter here),
  \<^verbatim>\<open>request.query\<close> and \<^verbatim>\<open>request.headers\<close>. Both dictionaries are maps from a name to
  its value as Bottle hands it out; a header is found under its name as the handler
  spells it (\<^verbatim>\<open>User-Agent\<close>, \<^verbatim>\<open>Cookie\<close>).
\<close>

record 'j request =
  json :: "'j outcome"
  query :: "string \<rightharpoonup> string"
  headers :: "string \<rightharpoonup> string"

subsection \<open>The solve endpoint\<close>

text \<open>
  The response object of the services: the handler reads its attribute
  \<^verbatim>\<open>__error_500__\<close> and hands the whole object to \<^verbatim>\<open>utils.object_to_dict\<close>.
\<close>

record V1ResponseBase =
  error_500 :: bool

text \<open>
  What a handler does to the outside, in order: a direct call of the synchronous
  service, and the three things \<^verbatim>\<open>asyncio.run\<close> does (create an event loop, run the
  coroutine on it until it is complete, close the loop). Event loops are numbered in
  the order in which the process creates them.
\<close>

datatype 'q event =
    CallEndpoint 'q
  | NewEventLoop nat
  | RunCoroutine nat 'q
  | CloseEventLoop nat

text \<open>
  The coroutine object \<^verbatim>\<open>controller_v1_endpoint_nd(req)\<close>: nothing has run yet; it
  holds what awaiting it to the end will give.
\<close>

datatype ('q, 'r) coroutine = Coroutine 'q "'r outcome"

text \<open>
  \<^verbatim>\<open>asyncio.run(coro)\<close>, by its documentation: it always creates a new event loop,
  runs the coroutine until it is complete, closes the loop at the end (also when the
  coroutine raised) and returns the coroutine's result. The argument \<open>loops\<close> is
  the number of event loops the process has created so far.
\<close>

definition asyncio_run :: "('q, 'r) coroutine \<Rightarrow> nat \<Rightarrow> 'r outcome \<times> 'q event list \<times> nat" where
  "asyncio_run coro loops =
     (case coro of Coroutine q result \<Rightarrow>
        (case result of
           Hangs \<Rightarrow> (Hangs, [NewEventLoop loops, RunCoroutine loops q], Suc loops)
         | Raises e \<Rightarrow>
             (Raises e, [NewEventLoop loops, RunCoroutine loops q, CloseEventLoop loops], Suc loops)
         | Returns r \<Rightarrow>
             (Returns r, [NewEventLoop loops, RunCoroutine loops q, CloseEventLoop loops], Suc loops)))"

text \<open>
  The names \<^verbatim>\<open>controller_v1\<close> takes from other modules: \<^verbatim>\<open>utils.DRIVER_SELECTION\<close>,
  the constructor \<^verbatim>\<open>dtos.V1RequestBase\<close>, the two service endpoints and
  \<^verbatim>\<open>utils.object_to_dict\<close>.
\<close>

record ('j, 'q, 'r, 'd) modules =
  DRIVER_SELECTION :: string
  V1RequestBase :: "'j \<Rightarrow> 'q outcome"
  controller_v1_endpoint :: "'q \<Rightarrow> 'r outcome"
  controller_v1_endpoint_nd :: "'q \<Rightarrow> 'r outcome"
  object_to_dict :: "'r \<Rightarrow> 'd outcome"

text \<open>
  The result of a handler: what it returns or raises, the \<^verbatim>\<open>response\<close> object as it
  leaves it, the number of event loops created so far, and the events in order.
\<close>

type_synonym ('d, 'q) handled = "'d outcome \<times> response \<times> nat \<times> 'q event list"

text \<open>Lines 57 to 60: the branch on \<^verbatim>\<open>utils.DRIVER_SELECTION\<close>.\<close>

definition dispatch ::
  "('j, 'q, 'r V1ResponseBase_scheme, 'd) modules \<Rightarrow> 'q \<Rightarrow> nat \<Rightarrow>
     'r V1ResponseBase_scheme outcome \<times> 'q event list \<times> nat" where
  "dispatch m req loops =
     (if DRIVER_SELECTION m = ''nodriver''
      then asyncio_run (Coroutine req (controller_v1_endpoint_nd m req)) loops
      else (controller_v1_endpoint m req, [CallEndpoint req], loops))"

text \<open>Lines 61 to 63: the status from the flag, then the conversion.\<close>

definition respond ::
  "('j, 'q, 'r V1ResponseBase_scheme, 'd) modules \<Rightarrow> 'r V1ResponseBase_scheme \<Rightarrow> response \<Rightarrow>
     'd outcome \<times> response" where
  "respond m res resp =
     (let resp' = (if error_500 res then resp\<lparr>status := 500\<rparr> else resp)
      in (object_to_dict m res, resp'))"

definition controller_v1 ::
  "('j, 'q, 'r V1ResponseBase_scheme, 'd) modules \<Rightarrow> 'j request \<Rightarrow> nat \<Rightarrow> response \<Rightarrow>
     ('d, 'q) handled" where
  "controller_v1 m rq loops resp =
     (case json rq of
        Raises e \<Rightarrow> (Raises e, resp, loops, [])
      | Hangs \<Rightarrow> (Hangs, resp, loops, [])
      | Returns j \<Rightarrow>
          (case V1RequestBase m j of
             Raises e \<Rightarrow> (Raises e, resp, loops, [])
           | Hangs \<Rightarrow> (Hangs, resp, loops, [])
           | Returns req \<Rightarrow>
               (case dispatch m req loops of
                  (Raises e, evs, loops') \<Rightarrow> (Raises e, resp, loops', evs)
                | (Hangs, evs, loops') \<Rightarrow> (Hangs, resp, loops', evs)
                | (Returns res, evs, loops') \<Rightarrow>
                    (case respond m res resp of
                       (out, resp') \<Rightarrow> (out, resp', loops', evs)))))"

text \<open>The calls that reached the synchronous and the asynchronous service.\<close>

fun sync_calls :: "'q event list \<Rightarrow> 'q list" where
  "sync_calls [] = []"
| "sync_calls (CallEndpoint q # evs) = q # sync_calls evs"
| "sync_calls (_ # evs) = sync_calls evs"

fun nd_calls :: "'q event list \<Rightarrow> 'q list" where
  "nd_calls [] = []"
| "nd_calls (RunCoroutine _ q # evs) = q # nd_calls evs"
| "nd_calls (_ # evs) = nd_calls evs"

text \<open>Accessors of a handler's result.\<close>

definition returned :: "('d, 'q) handled \<Rightarrow> 'd outcome" where
  "returned h = fst h"

definition response_of :: "('d, 'q) handled \<Rightarrow> response" where
  "response_of h = fst (snd h)"

definition loops_of :: "('d, 'q) handled \<Rightarrow> nat" where
  "loops_of h = fst (snd (snd h))"

definition events_of :: "('d, 'q) handled \<Rightarrow> 'q event list" where
  "events_of h = snd (snd (snd h))"

text \<open>
  Whether exactly one service call was made, counting both services together.
\<close>

definition exactly_one_adapter :: "'q event list \<Rightarrow> bool" where
  "exactly_one_adapter evs = (length (sync_calls evs) + length (nd_calls evs) = 1)"

subsection \<open>Example collaborators\<close>

text \<open>
  Two small services for evaluating the handlers on concrete requests: the request
  object is the command string itself; the synchronous service flags every command
  but \<^verbatim>\<open>request.get\<close> as an error, the asynchronous one succeeds on everything.
\<close>

definition example_modules :: "string \<Rightarrow> (string, string, V1ResponseBase, string) modules" where
  "example_modules sel =
     \<lparr>DRIVER_SELECTION = sel,
      V1RequestBase = (\<lambda>j. Returns j),
      controller_v1_endpoint = (\<lambda>q. Returns \<lparr>error_500 = (q \<noteq> ''request.get'')\<rparr>),
      controller_v1_endpoint_nd = (\<lambda>q. Returns \<lparr>error_500 = False\<rparr>),
      object_to_dict = (\<lambda>r. Returns (if error_500 r then ''error'' else ''ok''))\<rparr>"

definition example_post :: "string outcome \<Rightarrow> string request" where
  "example_post j = \<lparr>json = j, query = Map.empty, headers = Map.empty\<rparr>"

subsection \<open>The content endpoint\<close>

text \<open>
  The dictionaries a handler returns (Bottle sends a returned \<^verbatim>\<open>dict\<close> as JSON): string
  and integer values and nested dictionaries, keys in insertion order.
\<close>

datatype jval = JStr string | JInt int | JObj "(string \<times> jval) list"

fun keys :: "jval \<Rightarrow> string list" where
  "keys (JObj kvs) = map fst kvs"
| "keys _ = []"

fun field :: "string \<Rightarrow> jval \<Rightarrow> jval option" where
  "field k (JObj kvs) = map_of kvs k"
| "field k _ = None"

text \<open>
  Of the \<^verbatim>\<open>requests.Response\<close> that \<^verbatim>\<open>requests.get\<close> returns, the handler reads
  \<^verbatim>\<open>status_code\<close> and \<^verbatim>\<open>text\<close>.
\<close>

record external_response =
  ext_status_code :: int
  ext_text :: string

text \<open>An outbound call \<^verbatim>\<open>requests.get(url, headers=headers)\<close>.\<close>

datatype outbound = Get string "(string \<times> string) list"

type_synonym requests_get = "string \<Rightarrow> (string \<times> string) list \<Rightarrow> external_response outcome"

text \<open>
  \<^verbatim>\<open>d.get(key, default)\<close> on the header dictionary of the request. The lookup is taken
  to return: a request with a header value that Bottle cannot decode, for which the
  lookup of lines 74 and 75 would raise before line 83, is not among the requests
  described here.
\<close>

definition get_default :: "(string \<rightharpoonup> string) \<Rightarrow> string \<Rightarrow> string \<Rightarrow> string" where
  "get_default d k dflt = (case d k of None \<Rightarrow> dflt | Some v \<Rightarrow> v)"

text \<open>Lines 74 to 81: the two headers taken over from the inbound request.\<close>

definition forwarded_headers :: "'j request \<Rightarrow> (string \<times> string) list" where
  "forwarded_headers rq =
     [(''User-Agent'', get_default (headers rq) ''User-Agent'' ''Unknown''),
      (''Cookie'', get_default (headers rq) ''Cookie'' [])]"

text \<open>
  The handler of GET /content. \<^verbatim>\<open>not target_url\<close> holds for \<^verbatim>\<open>None\<close> (no such query
  parameter) and for the empty string. The \<^verbatim>\<open>except\<close> clause catches
  \<^verbatim>\<open>RequestException\<close> only; anything else escapes.
\<close>

definition content ::
  "requests_get \<Rightarrow> 'j request \<Rightarrow> response \<Rightarrow> jval outcome \<times> response \<times> outbound list" where
  "content requests_get rq resp =
     (case query rq ''url'' of
        None \<Rightarrow>
          (Returns (JObj [(''error'', JStr ''Missing 'url' in query parameters.'')]),
           resp\<lparr>status := 400\<rparr>, [])
      | Some target_url \<Rightarrow>
          if target_url = []
          then (Returns (JObj [(''error'', JStr ''Missing 'url' in query parameters.'')]),
                resp\<lparr>status := 400\<rparr>, [])
          else
            (let user_agent = get_default (headers rq) ''User-Agent'' ''Unknown'';
                 cookie = get_default (headers rq) ''Cookie'' [];
                 hdrs = [(''User-Agent'', user_agent), (''Cookie'', cookie)]
             in case requests_get target_url hdrs of
                  Returns external_response \<Rightarrow>
                    (Returns (JObj
                       [(''message'', JStr ''Request forwarded successfully''),
                        (''target_url'', JStr target_url),
                        (''received_headers'',
                           JObj [(''User-Agent'', JStr user_agent), (''Cookie'', JStr cookie)]),
                        (''status'', JInt (ext_status_code external_response)),
                        (''external_api_response'', JStr (ext_text external_response))]),
                     resp\<lparr>content_type := ''application/json''\<rparr>,
                     [Get target_url hdrs])
                | Raises (RequestException msg) \<Rightarrow>
                    (Returns (JObj [(''error'', JStr msg)]), resp\<lparr>status := 500\<rparr>,
                     [Get target_url hdrs])
                | Raises e \<Rightarrow> (Raises e, resp, [Get target_url hdrs])
                | Hangs \<Rightarrow> (Hangs, resp, [Get target_url hdrs])))"

text \<open>Example inbound requests and target servers for the content endpoint.\<close>

definition example_get :: "(string \<times> string) list \<Rightarrow> (string \<times> string) list \<Rightarrow> unit request" where
  "example_get q h = \<lparr>json = Returns (), query = map_of q, headers = map_of h\<rparr>"

definition example_target :: requests_get where
  "example_target u h = Returns \<lparr>ext_status_code = 404, ext_text = ''<h1>no such page</h1>''\<rparr>"

definition unreachable_target :: requests_get where
  "unreachable_target u h = Raises (RequestException ''Connection refused'')"

subsection \<open>The error handler\<close>

text \<open>
  The \<^verbatim>\<open>HTTPError\<close> that Bottle hands to \<^verbatim>\<open>default_error_handler\<close>; the handler reads
  \<^verbatim>\<open>res.body\<close> and \<^verbatim>\<open>res.status_code\<close>.
\<close>

record HTTPError =
  body :: string
  status_code :: int

text \<open>Line 26: \<^verbatim>\<open>dict(error=res.body, status_code=res.status_code)\<close>.\<close>

definition error_dict :: "HTTPError \<Rightarrow> jval" where
  "error_dict res = JObj [(''error'', JStr (body res)), (''status_code'', JInt (status_code res))]"

text \<open>
  \<^verbatim>\<open>JSONErrorBottle.default_error_handler\<close>; \<^verbatim>\<open>json.dumps\<close> is a parameter. Bottle calls
  it for every \<^verbatim>\<open>HTTPError\<close> without a handler of its own, the 404 of an unmatched
  route among them.
\<close>

definition default_error_handler ::
  "(jval \<Rightarrow> string) \<Rightarrow> HTTPError \<Rightarrow> response \<Rightarrow> string \<times> response" where
  "default_error_handler json_dumps res resp =
     (json_dumps (error_dict res), resp\<lparr>content_type := ''application/json''\<rparr>)"

text \<open>The error Bottle raises for \<^verbatim>\<open>GET /v2\<close>, a path without a route.\<close>

definition example_not_found :: HTTPError where
  "example_not_found = \<lparr>body = ''Not found: '/v2'' @ [CHR 0x27], status_code = 404\<rparr>"

subsection \<open>The start-up script\<close>

text \<open>
  The statements of the \<^verbatim>\<open>__main__\<close> block that call out of the module, in the order
  of the source: \<^verbatim>\<open>multiprocessing.freeze_support()\<close> (line 115), the two assignments
  from \<^verbatim>\<open>certifi.where()\<close> (120, 121), \<^verbatim>\<open>utils.get_config_log_html()\<close> (125),
  \<^verbatim>\<open>utils.get_config_headless()\<close> (126), \<^verbatim>\<open>int(os.environ.get('PORT', 8191))\<close> (128),
  \<^verbatim>\<open>utils.get_driver_selection()\<close> (131), the configuration of \<^verbatim>\<open>logging\<close> (134 to
  153), the version banner (155 to 159), \<^verbatim>\<open>utils.get_current_platform()\<close> (162), the
  self-test of the asynchronous service under \<^verbatim>\<open>asyncio.run\<close> (166) or of the synchronous
  one (168), the four plugin statements (172 to 175) and \<^verbatim>\<open>run(app, ...)\<close> (185), which
  starts the web server.
\<close>

datatype step =
    FreezeSupport
  | SetCaBundle
  | GetConfigLogHtml
  | GetConfigHeadless
  | ParsePort
  | GetDriverSelection
  | ConfigureLogging
  | LogVersion
  | GetCurrentPlatform
  | TestBrowserInstallationNd
  | TestBrowserInstallationUc
  | InstallLoggerPlugin
  | InstallErrorPlugin
  | PrometheusSetup
  | InstallPrometheusPlugin
  | RunServer

text \<open>
  Statements run one after the other; the first one that raises ends the script with
  its exception (there is no \<^verbatim>\<open>try\<close> in the block), and one that never comes back
  keeps the rest from running. The result is the list of statements that were
  started, and how the script ended.
\<close>

fun run_steps :: "(step \<Rightarrow> unit outcome) \<Rightarrow> step list \<Rightarrow> step list \<times> unit outcome" where
  "run_steps ext [] = ([], Returns ())"
| "run_steps ext (s # ss) =
     (case ext s of
        Returns _ \<Rightarrow> (s # fst (run_steps ext ss), snd (run_steps ext ss))
      | Raises e \<Rightarrow> ([s], Raises e)
      | Hangs \<Rightarrow> ([s], Hangs))"

text \<open>Lines 165 to 168: the self-test that belongs to the selection.\<close>

definition self_test :: "string \<Rightarrow> step" where
  "self_test sel =
     (if sel = ''nodriver'' then TestBrowserInstallationNd else TestBrowserInstallationUc)"

definition main_steps :: "string \<Rightarrow> string \<Rightarrow> step list" where
  "main_steps os_name sel =
     (if os_name = ''nt'' then [FreezeSupport] else []) @
     [SetCaBundle, GetConfigLogHtml, GetConfigHeadless, ParsePort, GetDriverSelection,
      ConfigureLogging, LogVersion, GetCurrentPlatform] @
     [self_test sel] @
     [InstallLoggerPlugin, InstallErrorPlugin, PrometheusSetup, InstallPrometheusPlugin,
      RunServer]"

text \<open>
  The \<^verbatim>\<open>__main__\<close> block: \<open>version_info\<close> is the major and minor number of
  \<^verbatim>\<open>sys.version_info\<close>, \<open>sel\<close> the value of \<^verbatim>\<open>utils.DRIVER_SELECTION\<close> when line 165
  reads it, \<open>ext\<close> what each statement does when it is run.
\<close>

definition main ::
  "nat \<times> nat \<Rightarrow> string \<Rightarrow> string \<Rightarrow> (step \<Rightarrow> unit outcome) \<Rightarrow> step list \<times> unit outcome" where
  "main version_info os_name sel ext =
     (if fst version_info < 3 \<or> (fst version_info = 3 \<and> snd version_info < 9)
      then ([], Raises (Exception
        ''The Python version is less than 3.9, a version equal to or higher is required.''))
      else run_steps ext (main_steps os_name sel))"

text \<open>Whether \<open>a\<close> was started before the first start of \<open>b\<close>.\<close>

definition started_before :: "step \<Rightarrow> step \<Rightarrow> step list \<Rightarrow> bool" where
  "started_before a b tr = (a \<in> set (takeWhile (\<lambda>s. s \<noteq> b) tr))"

text \<open>Example machines: everything works; the browser of the synchronous service is missing.\<close>

definition all_fine :: "step \<Rightarrow> unit outcome" where
  "all_fine s = Returns ()"

definition no_browser :: "step \<Rightarrow> unit outcome" where
  "no_browser s =
     (if s = TestBrowserInstallationUc then Raises (Exception ''SystemExit: 1'') else Returns ())"

subsection \<open>Request validation and the status of an escaped exception\<close>

text \<open>
  Modelled from the spec: the Request DTO layer (\<^verbatim>\<open>dtos.V1RequestBase\<close> is imported by
  the module but is not among its sources). The body of a POST /v1 request carries
  \<^verbatim>\<open>cmd\<close>, \<^verbatim>\<open>url\<close> and optionally \<^verbatim>\<open>maxTimeout\<close>; the other optional fields play no part
  in validation.
\<close>

record raw_request =
  raw_cmd :: "string option"
  raw_url :: "string option"
  raw_maxTimeout :: "int option"

record SolveRequest =
  cmd :: string
  url :: string
  maxTimeout :: int

text \<open>
  Modelled from the spec: section 4.1, "given raw untyped JSON, produce a SolveRequest
  or fail with a ValidationError naming the offending field. Must reject missing
  command, malformed URL, and negative/zero timeout", and section 3, "command must be
  one of a fixed known set; unknown command is a validation failure" and "timeout
  (milliseconds, default applied if absent)". What the constructor is given is the
  value of \<^verbatim>\<open>request.json\<close>: the parsed body, or \<^verbatim>\<open>None\<close> when the request has no JSON
  body, which has no command. The known commands, the test for a well-formed URL and
  the default timeout are not given by the spec and are parameters.
\<close>

definition V1RequestBase_spec ::
  "string list \<Rightarrow> (string \<Rightarrow> bool) \<Rightarrow> int \<Rightarrow> raw_request option \<Rightarrow> SolveRequest outcome" where
  "V1RequestBase_spec known_cmds well_formed default_timeout b =
     (case b of
        None \<Rightarrow> Raises (ValidationError ''cmd'')
      | Some raw \<Rightarrow>
     (case raw_cmd raw of
        None \<Rightarrow> Raises (ValidationError ''cmd'')
      | Some c \<Rightarrow>
          if c \<notin> set known_cmds then Raises (ValidationError ''cmd'')
          else
            (case raw_url raw of
               None \<Rightarrow> Raises (ValidationError ''url'')
             | Some u \<Rightarrow>
                 if \<not> well_formed u then Raises (ValidationError ''url'')
                 else
                   (case raw_maxTimeout raw of
                      None \<Rightarrow> Returns \<lparr>cmd = c, url = u, maxTimeout = default_timeout\<rparr>
                    | Some t \<Rightarrow>
                        if t \<le> 0 then Raises (ValidationError ''maxTimeout'')
                        else Returns \<lparr>cmd = c, url = u, maxTimeout = t\<rparr>))))"

text \<open>
  Modelled from the spec: section 7, the status the HTTP surface gives a request
  (\<^verbatim>\<open>bottle_plugins.error_plugin\<close>, which sees the exceptions that escape a handler, is
  not among the sources). A \<open>ValidationError\<close> is answered with 400 and every other
  failure with 500, except that an \<open>HTTPError\<close> raised by Bottle is answered with the
  status it carries (section 6, "400 on malformed input"); a handler that returns
  keeps the status it left on \<^verbatim>\<open>response\<close>; one that never returns gives no status.
\<close>

definition surface_status :: "('d, 'q) handled \<Rightarrow> int option" where
  "surface_status h =
     (case returned h of
        Returns d \<Rightarrow> Some (status (response_of h))
      | Raises (ValidationError f) \<Rightarrow> Some 400
      | Raises (HTTPError c msg) \<Rightarrow> Some c
      | Raises e \<Rightarrow> Some 500
      | Hangs \<Rightarrow> None)"

text \<open>
  The values of \<^verbatim>\<open>request.json\<close> that section 4.1 calls malformed: no JSON body at all,
  no command, no URL or one that is not well formed, a timeout that is zero or
  negative.
\<close>

definition malformed :: "(string \<Rightarrow> bool) \<Rightarrow> raw_request option \<Rightarrow> bool" where
  "malformed well_formed b =
     (case b of
        None \<Rightarrow> True
      | Some raw \<Rightarrow>
          raw_cmd raw = None
          \<or> (case raw_url raw of None \<Rightarrow> True | Some u \<Rightarrow> \<not> well_formed u)
          \<or> (case raw_maxTimeout raw of None \<Rightarrow> False | Some t \<Rightarrow> t \<le> 0))"

text \<open>The values of \<^verbatim>\<open>request.json\<close> whose command is not one of the known ones.\<close>

definition unknown_command :: "string list \<Rightarrow> raw_request option \<Rightarrow> bool" where
  "unknown_command known_cmds b =
     (case b of
        None \<Rightarrow> False
      | Some raw \<Rightarrow> (case raw_cmd raw of None \<Rightarrow> False | Some c \<Rightarrow> c \<notin> set known_cmds))"

text \<open>Example: the validating constructor in front of two services that always succeed.\<close>

definition example_commands :: "string list" where
  "example_commands = [''sessions.create'', ''sessions.list'', ''sessions.destroy'',
     ''request.get'', ''request.post'']"

definition validating_modules ::
  "string \<Rightarrow> (raw_request option, SolveRequest, V1ResponseBase, string) modules" where
  "validating_modules sel =
     \<lparr>DRIVER_SELECTION = sel,
      V1RequestBase = V1RequestBase_spec example_commands (\<lambda>u. u \<noteq> []) 60000,
      controller_v1_endpoint = (\<lambda>q. Returns \<lparr>error_500 = False\<rparr>),
      controller_v1_endpoint_nd = (\<lambda>q. Returns \<lparr>error_500 = False\<rparr>),
      object_to_dict = (\<lambda>r. Returns ''ok'')\<rparr>"

definition example_body :: "string \<Rightarrow> int option \<Rightarrow> raw_request option" where
  "example_body c t =
     Some \<lparr>raw_cmd = Some c, raw_url = Some ''http://example.test'', raw_maxTimeout = t\<rparr>"

definition post_body :: "raw_request option outcome \<Rightarrow> raw_request option request" where
  "post_body j = \<lparr>json = j, query = Map.empty, headers = Map.empty\<rparr>"

section \<open>Properties\<close>

subsection \<open>The solve endpoint\<close>

lemma dispatch_nodriver:
  "DRIVER_SELECTION m = ''nodriver'' \<Longrightarrow>
   dispatch m req loops = asyncio_run (Coroutine req (controller_v1_endpoint_nd m req)) loops"
  by (simp add: dispatch_def)

lemma dispatch_other:
  "DRIVER_SELECTION m \<noteq> ''nodriver'' \<Longrightarrow>
   dispatch m req loops = (controller_v1_endpoint m req, [CallEndpoint req], loops)"
  by (simp add: dispatch_def)

lemma asyncio_run_events:
  "fst (snd (asyncio_run (Coroutine q r) loops)) =
     (if r = Hangs then [NewEventLoop loops, RunCoroutine loops q]
      else [NewEventLoop loops, RunCoroutine loops q, CloseEventLoop loops])"
  by (cases r) (simp_all add: asyncio_run_def)

lemma asyncio_run_result: "fst (asyncio_run (Coroutine q r) loops) = r"
  by (cases r) (simp_all add: asyncio_run_def)

lemma asyncio_run_loops: "snd (snd (asyncio_run (Coroutine q r) loops)) = Suc loops"
  by (cases r) (simp_all add: asyncio_run_def)

lemma dispatch_result:
  "fst (dispatch m req loops) =
     (if DRIVER_SELECTION m = ''nodriver'' then controller_v1_endpoint_nd m req
      else controller_v1_endpoint m req)"
  by (simp add: dispatch_def asyncio_run_result)

lemma controller_v1_built:
  assumes "json rq = Returns j" and "V1RequestBase m j = Returns req"
  shows "controller_v1 m rq loops resp =
     (case dispatch m req loops of
        (Raises e, evs, loops') \<Rightarrow> (Raises e, resp, loops', evs)
      | (Hangs, evs, loops') \<Rightarrow> (Hangs, resp, loops', evs)
      | (Returns res, evs, loops') \<Rightarrow>
          (case respond m res resp of (out, resp') \<Rightarrow> (out, resp', loops', evs)))"
  using assms by (simp add: controller_v1_def)

lemma controller_v1_status:
  assumes "json rq = Returns j" and "V1RequestBase m j = Returns req"
    and "fst (dispatch m req loops) = Returns res"
  shows "status (response_of (controller_v1 m rq loops resp)) =
     (if error_500 res then 500 else status resp)"
proof -
  obtain evs loops' where d: "dispatch m req loops = (Returns res, evs, loops')"
    using assms(3) by (cases "dispatch m req loops") auto
  show ?thesis
    by (simp add: controller_v1_built [OF assms(1,2)] d respond_def response_of_def Let_def
        split: prod.splits)
qed

lemma controller_v1_events:
  assumes "json rq = Returns j" and "V1RequestBase m j = Returns req"
  shows "events_of (controller_v1 m rq loops resp) = fst (snd (dispatch m req loops))"
  by (simp add: controller_v1_built [OF assms] events_of_def respond_def Let_def
      split: prod.splits outcome.splits)

lemma controller_v1_loops:
  assumes "json rq = Returns j" and "V1RequestBase m j = Returns req"
  shows "loops_of (controller_v1 m rq loops resp) = snd (snd (dispatch m req loops))"
  by (simp add: controller_v1_built [OF assms] loops_of_def respond_def Let_def
      split: prod.splits outcome.splits)

lemma controller_v1_returned:
  assumes "json rq = Returns j" and "V1RequestBase m j = Returns req"
  shows "returned (controller_v1 m rq loops resp) =
     (case fst (dispatch m req loops) of
        Returns res \<Rightarrow> object_to_dict m res
      | Raises e \<Rightarrow> Raises e
      | Hangs \<Rightarrow> Hangs)"
  by (simp add: controller_v1_built [OF assms] returned_def respond_def Let_def
      split: prod.splits outcome.splits)

text \<open>
  C2. A POST /v1 request that yields a response (the request object is built, the
  selected service returns a response object \<open>res\<close>, and \<^verbatim>\<open>utils.object_to_dict\<close> turns
  it into \<open>d\<close>) makes the handler return \<open>d\<close>, with HTTP status 500 exactly when
  \<^verbatim>\<open>res.__error_500__\<close> is true, and with the status 200 of a new Bottle response when it
  is false.
\<close>

theorem controller_v1_status_iff_error_500:
  assumes "json rq = Returns j" and "V1RequestBase m j = Returns req"
    and "(if DRIVER_SELECTION m = ''nodriver'' then controller_v1_endpoint_nd m req
          else controller_v1_endpoint m req) = Returns res"
    and "object_to_dict m res = Returns d"
  shows "returned (controller_v1 m rq loops fresh_response) = Returns d
     \<and> (status (response_of (controller_v1 m rq loops fresh_response)) = 500) = error_500 res
     \<and> status (response_of (controller_v1 m rq loops fresh_response)) =
         (if error_500 res then 500 else 200)"
proof -
  have res: "fst (dispatch m req loops) = Returns res"
    using assms(3) by (simp add: dispatch_result)
  have "returned (controller_v1 m rq loops fresh_response) = Returns d"
    by (simp add: controller_v1_returned [OF assms(1,2)] res assms(4))
  moreover from controller_v1_status [OF assms(1,2) res]
  have "status (response_of (controller_v1 m rq loops fresh_response)) =
      (if error_500 res then 500 else 200)"
    by (simp add: fresh_response_def)
  ultimately show ?thesis by simp
qed

theorem controller_v1_status_iff_error_500_witness:
  "json (example_post (Returns ''sessions.list'')) = Returns ''sessions.list''
   \<and> V1RequestBase (example_modules ''undetected-chromedriver'') ''sessions.list''
       = Returns ''sessions.list''
   \<and> controller_v1_endpoint (example_modules ''undetected-chromedriver'') ''sessions.list''
       = Returns \<lparr>error_500 = True\<rparr>
   \<and> object_to_dict (example_modules ''undetected-chromedriver'') \<lparr>error_500 = True\<rparr>
       = Returns ''error''
   \<and> returned (controller_v1 (example_modules ''undetected-chromedriver'')
         (example_post (Returns ''sessions.list'')) 0 fresh_response) = Returns ''error''
   \<and> status (response_of (controller_v1 (example_modules ''undetected-chromedriver'')
         (example_post (Returns ''sessions.list'')) 0 fresh_response)) = 500
   \<and> returned (controller_v1 (example_modules ''undetected-chromedriver'')
         (example_post (Returns ''request.get'')) 0 fresh_response) = Returns ''ok''
   \<and> status (response_of (controller_v1 (example_modules ''undetected-chromedriver'')
         (example_post (Returns ''request.get'')) 0 fresh_response)) = 200"
proof -
  have flagged: "returned (controller_v1 (example_modules ''undetected-chromedriver'')
        (example_post (Returns ''sessions.list'')) 0 fresh_response) = Returns ''error''"
    "status (response_of (controller_v1 (example_modules ''undetected-chromedriver'')
        (example_post (Returns ''sessions.list'')) 0 fresh_response)) = 500"
    using controller_v1_status_iff_error_500
      [of "example_post (Returns ''sessions.list'')" "''sessions.list''"
          "example_modules ''undetected-chromedriver''" "''sessions.list''"
          "\<lparr>error_500 = True\<rparr>" "''error''" 0]
    by (simp_all add: example_post_def example_modules_def)
  have clean: "returned (controller_v1 (example_modules ''undetected-chromedriver'')
        (example_post (Returns ''request.get'')) 0 fresh_response) = Returns ''ok''"
    "status (response_of (controller_v1 (example_modules ''undetected-chromedriver'')
        (example_post (Returns ''request.get'')) 0 fresh_response)) = 200"
    using controller_v1_status_iff_error_500
      [of "example_post (Returns ''request.get'')" "''request.get''"
          "example_modules ''undetected-chromedriver''" "''request.get''"
          "\<lparr>error_500 = False\<rparr>" "''ok''" 0]
    by (simp_all add: example_post_def example_modules_def)
  from flagged clean show ?thesis by (simp add: example_post_def example_modules_def)
qed

text \<open>
  C1, as amended. For every POST /v1 request whose request object is built (neither
  \<^verbatim>\<open>request.json\<close> nor the constructor \<^verbatim>\<open>V1RequestBase\<close> raises), the handler calls
  exactly one service, with that request object, and which one depends on
  \<^verbatim>\<open>utils.DRIVER_SELECTION\<close> alone: the asynchronous one when it is \<^verbatim>\<open>"nodriver"\<close>,
  the synchronous one for every other value; never both, never neither.
\<close>

theorem controller_v1_one_adapter:
  assumes "json rq = Returns j" and "V1RequestBase m j = Returns req"
  shows "exactly_one_adapter (events_of (controller_v1 m rq loops resp))
     \<and> nd_calls (events_of (controller_v1 m rq loops resp)) =
         (if DRIVER_SELECTION m = ''nodriver'' then [req] else [])
     \<and> sync_calls (events_of (controller_v1 m rq loops resp)) =
         (if DRIVER_SELECTION m = ''nodriver'' then [] else [req])"
proof (cases "DRIVER_SELECTION m = ''nodriver''")
  case True
  then show ?thesis
    by (simp add: controller_v1_events [OF assms] dispatch_nodriver asyncio_run_events
        exactly_one_adapter_def)
next
  case False
  then show ?thesis
    by (simp add: controller_v1_events [OF assms] dispatch_other exactly_one_adapter_def)
qed

theorem controller_v1_one_adapter_witness:
  "json (example_post (Returns ''request.get'')) = Returns ''request.get''
   \<and> V1RequestBase (example_modules ''nodriver'') ''request.get'' = Returns ''request.get''
   \<and> exactly_one_adapter (events_of (controller_v1 (example_modules ''nodriver'')
         (example_post (Returns ''request.get'')) 0 fresh_response))
   \<and> nd_calls (events_of (controller_v1 (example_modules ''nodriver'')
         (example_post (Returns ''request.get'')) 0 fresh_response)) = [''request.get'']
   \<and> sync_calls (events_of (controller_v1 (example_modules ''nodriver'')
         (example_post (Returns ''request.get'')) 0 fresh_response)) = []"
  using controller_v1_one_adapter
    [of "example_post (Returns ''request.get'')" "''request.get''"
        "example_modules ''nodriver''" "''request.get''" 0 fresh_response]
  by (simp add: example_post_def example_modules_def)

text \<open>
  C1 as stated fails: a POST /v1 request whose \<^verbatim>\<open>request.json\<close> raises (a body that is
  not JSON) leaves line 56 with the exception, and neither service is called.
\<close>

theorem controller_v1_no_adapter_counterexample:
  "events_of (controller_v1 (example_modules ''nodriver'')
       (example_post (Raises (Exception ''Invalid JSON''))) 0 fresh_response) = []
   \<and> \<not> exactly_one_adapter (events_of (controller_v1 (example_modules ''nodriver'')
       (example_post (Raises (Exception ''Invalid JSON''))) 0 fresh_response))"
  by (simp add: controller_v1_def example_post_def events_of_def exactly_one_adapter_def)

lemma controller_v1_nodriver:
  assumes "DRIVER_SELECTION m = ''nodriver''"
    and "json rq = Returns j" and "V1RequestBase m j = Returns req"
  shows "events_of (controller_v1 m rq loops resp) =
       NewEventLoop loops # RunCoroutine loops req #
         (if controller_v1_endpoint_nd m req = Hangs then [] else [CloseEventLoop loops])"
    and "loops_of (controller_v1 m rq loops resp) = Suc loops"
    and "returned (controller_v1 m rq loops resp) =
         (case controller_v1_endpoint_nd m req of
            Returns res \<Rightarrow> object_to_dict m res
          | Raises e \<Rightarrow> Raises e
          | Hangs \<Rightarrow> Hangs)"
  using assms(1)
  by (simp_all add: controller_v1_events [OF assms(2,3)] controller_v1_loops [OF assms(2,3)]
      controller_v1_returned [OF assms(2,3)] dispatch_nodriver asyncio_run_events
      asyncio_run_result asyncio_run_loops)

text \<open>
  C8, as amended. With \<^verbatim>\<open>"nodriver"\<close> selected, every POST /v1 invocation whose request
  object is built (neither \<^verbatim>\<open>request.json\<close> nor the constructor \<^verbatim>\<open>V1RequestBase\<close>
  raises) runs the asynchronous endpoint inside an event loop of its own:
  \<^verbatim>\<open>asyncio.run\<close> creates a loop that did not exist before (the process's loop count goes
  up by one), runs the coroutine of the endpoint on it and closes it once the coroutine
  is complete; the synchronous service is not called. The handler returns only then:
  what it returns is \<^verbatim>\<open>object_to_dict\<close> of the value the coroutine completed with, an
  exception of the coroutine escapes the handler, and a coroutine that never completes
  keeps the handler from returning.
\<close>

theorem controller_v1_nodriver_runs_to_completion:
  assumes "DRIVER_SELECTION m = ''nodriver''"
    and "json rq = Returns j" and "V1RequestBase m j = Returns req"
  shows "events_of (controller_v1 m rq loops resp) =
       NewEventLoop loops # RunCoroutine loops req #
         (if controller_v1_endpoint_nd m req = Hangs then [] else [CloseEventLoop loops])
     \<and> loops_of (controller_v1 m rq loops resp) = Suc loops
     \<and> nd_calls (events_of (controller_v1 m rq loops resp)) = [req]
     \<and> sync_calls (events_of (controller_v1 m rq loops resp)) = []
     \<and> returned (controller_v1 m rq loops resp) =
         (case controller_v1_endpoint_nd m req of
            Returns res \<Rightarrow> object_to_dict m res
          | Raises e \<Rightarrow> Raises e
          | Hangs \<Rightarrow> Hangs)
     \<and> (\<forall>d. returned (controller_v1 m rq loops resp) = Returns d \<longrightarrow>
          (\<exists>res. controller_v1_endpoint_nd m req = Returns res
             \<and> object_to_dict m res = Returns d
             \<and> events_of (controller_v1 m rq loops resp) =
                 [NewEventLoop loops, RunCoroutine loops req, CloseEventLoop loops]))"
proof -
  note nd = controller_v1_nodriver [OF assms, of loops resp]
  have calls: "nd_calls (events_of (controller_v1 m rq loops resp)) = [req]"
    "sync_calls (events_of (controller_v1 m rq loops resp)) = []"
    by (simp_all add: nd(1))
  have completed: "\<exists>res. controller_v1_endpoint_nd m req = Returns res
      \<and> object_to_dict m res = Returns d
      \<and> events_of (controller_v1 m rq loops resp) =
          [NewEventLoop loops, RunCoroutine loops req, CloseEventLoop loops]"
    if ret: "returned (controller_v1 m rq loops resp) = Returns d" for d
  proof (cases "controller_v1_endpoint_nd m req")
    case (Returns res)
    with ret nd(1,3) show ?thesis by simp
  next
    case (Raises e)
    with ret nd(3) show ?thesis by simp
  next
    case Hangs
    with ret nd(3) show ?thesis by simp
  qed
  from nd calls completed show ?thesis by blast
qed

theorem controller_v1_nodriver_runs_to_completion_witness:
  "DRIVER_SELECTION (example_modules ''nodriver'') = ''nodriver''
   \<and> json (example_post (Returns ''request.get'')) = Returns ''request.get''
   \<and> V1RequestBase (example_modules ''nodriver'') ''request.get'' = Returns ''request.get''
   \<and> returned (controller_v1 (example_modules ''nodriver'')
         (example_post (Returns ''request.get'')) 4 fresh_response) = Returns ''ok''
   \<and> events_of (controller_v1 (example_modules ''nodriver'')
         (example_post (Returns ''request.get'')) 4 fresh_response) =
       [NewEventLoop 4, RunCoroutine 4 ''request.get'', CloseEventLoop 4]
   \<and> loops_of (controller_v1 (example_modules ''nodriver'')
         (example_post (Returns ''request.get'')) 4 fresh_response) = 5"
proof -
  have sel: "DRIVER_SELECTION (example_modules ''nodriver'') = ''nodriver''"
    by (simp add: example_modules_def)
  have built: "json (example_post (Returns ''request.get'')) = Returns ''request.get''"
    "V1RequestBase (example_modules ''nodriver'') ''request.get'' = Returns ''request.get''"
    by (simp_all add: example_post_def example_modules_def)
  have nd: "controller_v1_endpoint_nd (example_modules ''nodriver'') ''request.get''
      = Returns \<lparr>error_500 = False\<rparr>"
    "object_to_dict (example_modules ''nodriver'') \<lparr>error_500 = False\<rparr> = Returns ''ok''"
    by (simp_all add: example_modules_def)
  from controller_v1_nodriver_runs_to_completion [OF sel built, of 4 fresh_response]
  have all: "events_of (controller_v1 (example_modules ''nodriver'')
        (example_post (Returns ''request.get'')) 4 fresh_response) =
      NewEventLoop 4 # RunCoroutine 4 ''request.get'' #
        (if controller_v1_endpoint_nd (example_modules ''nodriver'') ''request.get'' = Hangs
         then [] else [CloseEventLoop 4])"
    "loops_of (controller_v1 (example_modules ''nodriver'')
        (example_post (Returns ''request.get'')) 4 fresh_response) = Suc 4"
    "returned (controller_v1 (example_modules ''nodriver'')
        (example_post (Returns ''request.get'')) 4 fresh_response) =
      (case controller_v1_endpoint_nd (example_modules ''nodriver'') ''request.get'' of
         Returns res \<Rightarrow> object_to_dict (example_modules ''nodriver'') res
       | Raises e \<Rightarrow> Raises e
       | Hangs \<Rightarrow> Hangs)"
    by blast+
  from all nd sel built show ?thesis by simp
qed

text \<open>
  C8 as stated fails. With \<^verbatim>\<open>"nodriver"\<close> selected, a POST /v1 invocation whose
  \<^verbatim>\<open>request.json\<close> raises (Bottle's \<^verbatim>\<open>HTTPError\<close> for a body that is not valid JSON) ends
  at line 56 with that exception: no event loop is created, the loop count stays as it
  was, and the asynchronous endpoint is not run.
\<close>

theorem controller_v1_nodriver_no_loop_counterexample:
  "DRIVER_SELECTION (example_modules ''nodriver'') = ''nodriver''
   \<and> events_of (controller_v1 (example_modules ''nodriver'')
       (example_post (Raises (HTTPError 400 ''Invalid JSON''))) 4 fresh_response) = []
   \<and> nd_calls (events_of (controller_v1 (example_modules ''nodriver'')
       (example_post (Raises (HTTPError 400 ''Invalid JSON''))) 4 fresh_response)) = []
   \<and> loops_of (controller_v1 (example_modules ''nodriver'')
       (example_post (Raises (HTTPError 400 ''Invalid JSON''))) 4 fresh_response) = 4
   \<and> returned (controller_v1 (example_modules ''nodriver'')
       (example_post (Raises (HTTPError 400 ''Invalid JSON''))) 4 fresh_response)
       = Raises (HTTPError 400 ''Invalid JSON'')"
  by (simp add: controller_v1_def example_post_def example_modules_def events_of_def
      loops_of_def returned_def)

subsection \<open>The content endpoint\<close>

lemma content_forwards:
  assumes "query rq ''url'' = Some u" and "u \<noteq> []"
  shows "content g rq resp =
     (case g u (forwarded_headers rq) of
        Returns ext \<Rightarrow>
          (Returns (JObj
             [(''message'', JStr ''Request forwarded successfully''),
              (''target_url'', JStr u),
              (''received_headers'',
                 JObj [(''User-Agent'', JStr (get_default (headers rq) ''User-Agent'' ''Unknown'')),
                       (''Cookie'', JStr (get_default (headers rq) ''Cookie'' []))]),
              (''status'', JInt (ext_status_code ext)),
              (''external_api_response'', JStr (ext_text ext))]),
           resp\<lparr>content_type := ''application/json''\<rparr>,
           [Get u (forwarded_headers rq)])
      | Raises (RequestException msg) \<Rightarrow>
          (Returns (JObj [(''error'', JStr msg)]), resp\<lparr>status := 500\<rparr>,
           [Get u (forwarded_headers rq)])
      | Raises e \<Rightarrow> (Raises e, resp, [Get u (forwarded_headers rq)])
      | Hangs \<Rightarrow> (Hangs, resp, [Get u (forwarded_headers rq)]))"
  using assms
  by (simp add: content_def forwarded_headers_def Let_def split: outcome.splits exn.splits)

text \<open>
  C5. A GET /content request whose \<^verbatim>\<open>url\<close> query parameter is absent or empty is
  answered with status 400 and the dictionary whose only field is \<^verbatim>\<open>error\<close>; no
  outbound request is made.
\<close>

theorem content_missing_url:
  assumes "query rq ''url'' = None \<or> query rq ''url'' = Some []"
  shows "content g rq resp =
     (Returns (JObj [(''error'', JStr ''Missing 'url' in query parameters.'')]),
      resp\<lparr>status := 400\<rparr>, [])"
  using assms by (auto simp: content_def)

theorem content_missing_url_witness:
  "query (example_get [(''url'', [])] [(''Cookie'', ''a=b'')]) ''url'' = Some []
   \<and> content example_target (example_get [(''url'', [])] [(''Cookie'', ''a=b'')]) fresh_response =
       (Returns (JObj [(''error'', JStr ''Missing 'url' in query parameters.'')]),
        \<lparr>status = 400, content_type = ''text/html; charset=UTF-8''\<rparr>, [])"
  using content_missing_url
    [of "example_get [(''url'', [])] [(''Cookie'', ''a=b'')]" example_target fresh_response]
  by (simp add: example_get_def fresh_response_def)

text \<open>
  C4, as amended. For every GET /content request with a non-empty \<^verbatim>\<open>url\<close> query
  parameter, the outbound request to that URL carries exactly the inbound request's
  \<^verbatim>\<open>User-Agent\<close> and \<^verbatim>\<open>Cookie\<close> header values, with \<^verbatim>\<open>Unknown\<close> and the empty string in
  the place of a header the inbound request does not have; and when the outbound
  request completes, the response returned to the caller contains the target server's
  response body verbatim (the \<^verbatim>\<open>text\<close> of the response, under
  \<^verbatim>\<open>external_api_response\<close>). In that case the handler has made this one call of
  \<^verbatim>\<open>requests.get\<close> and no other.
\<close>

theorem content_forwards_headers_and_body:
  assumes "query rq ''url'' = Some u" and "u \<noteq> []"
  shows "(\<forall>ob \<in> set (snd (snd (content g rq resp))).
           \<exists>hdrs. ob = Get u hdrs
             \<and> map_of hdrs ''User-Agent'' =
                 Some (case headers rq ''User-Agent'' of Some v \<Rightarrow> v | None \<Rightarrow> ''Unknown'')
             \<and> map_of hdrs ''Cookie'' =
                 Some (case headers rq ''Cookie'' of Some v \<Rightarrow> v | None \<Rightarrow> []))
     \<and> (\<forall>ext. g u (forwarded_headers rq) = Returns ext \<longrightarrow>
           snd (snd (content g rq resp)) = [Get u (forwarded_headers rq)]
           \<and> (\<exists>d. fst (content g rq resp) = Returns d
                \<and> field ''external_api_response'' d = Some (JStr (ext_text ext))))"
proof -
  have outs: "snd (snd (content g rq resp)) = [Get u (forwarded_headers rq)]"
    by (simp add: content_forwards [OF assms] split: outcome.splits exn.splits)
  have hdrs: "map_of (forwarded_headers rq) ''User-Agent'' =
       Some (case headers rq ''User-Agent'' of Some v \<Rightarrow> v | None \<Rightarrow> ''Unknown'')"
    "map_of (forwarded_headers rq) ''Cookie'' =
       Some (case headers rq ''Cookie'' of Some v \<Rightarrow> v | None \<Rightarrow> [])"
    by (simp_all add: forwarded_headers_def get_default_def)
  have body: "\<exists>d. fst (content g rq resp) = Returns d
      \<and> field ''external_api_response'' d = Some (JStr (ext_text ext))"
    if "g u (forwarded_headers rq) = Returns ext" for ext
    using that by (simp add: content_forwards [OF assms])
  from outs hdrs body show ?thesis by simp
qed

theorem content_forwards_headers_and_body_witness:
  "query (example_get [(''url'', ''http://example.test'')]
       [(''Cookie'', ''a=b''), (''User-Agent'', ''curl/8.5'')]) ''url'' = Some ''http://example.test''
   \<and> ''http://example.test'' \<noteq> []
   \<and> example_target ''http://example.test''
         (forwarded_headers (example_get [(''url'', ''http://example.test'')]
            [(''Cookie'', ''a=b''), (''User-Agent'', ''curl/8.5'')]))
       = Returns \<lparr>ext_status_code = 404, ext_text = ''<h1>no such page</h1>''\<rparr>
   \<and> snd (snd (content example_target (example_get [(''url'', ''http://example.test'')]
         [(''Cookie'', ''a=b''), (''User-Agent'', ''curl/8.5'')]) fresh_response)) =
       [Get ''http://example.test'' [(''User-Agent'', ''curl/8.5''), (''Cookie'', ''a=b'')]]
   \<and> (\<exists>d. fst (content example_target (example_get [(''url'', ''http://example.test'')]
         [(''Cookie'', ''a=b''), (''User-Agent'', ''curl/8.5'')]) fresh_response) = Returns d
         \<and> field ''external_api_response'' d = Some (JStr ''<h1>no such page</h1>''))"
proof -
  let ?rq = "example_get [(''url'', ''http://example.test'')]
       [(''Cookie'', ''a=b''), (''User-Agent'', ''curl/8.5'')]"
  have url: "query ?rq ''url'' = Some ''http://example.test''" "''http://example.test'' \<noteq> []"
    by (simp_all add: example_get_def)
  have hdrs: "forwarded_headers ?rq = [(''User-Agent'', ''curl/8.5''), (''Cookie'', ''a=b'')]"
    by (simp add: forwarded_headers_def get_default_def example_get_def)
  have completes: "example_target ''http://example.test'' (forwarded_headers ?rq)
      = Returns \<lparr>ext_status_code = 404, ext_text = ''<h1>no such page</h1>''\<rparr>"
    by (simp add: example_target_def)
  from content_forwards_headers_and_body [OF url, of example_target fresh_response] completes
  have "snd (snd (content example_target ?rq fresh_response)) =
      [Get ''http://example.test'' (forwarded_headers ?rq)]"
    "\<exists>d. fst (content example_target ?rq fresh_response) = Returns d
      \<and> field ''external_api_response'' d = Some (JStr ''<h1>no such page</h1>'')"
    by simp_all
  with url completes hdrs show ?thesis by simp
qed

text \<open>
  C4 as stated fails. A request \<^verbatim>\<open>GET /content?url=\<close> has a \<^verbatim>\<open>url\<close> query parameter, yet
  no outbound request is made and the answer holds no target body. A request without
  \<^verbatim>\<open>User-Agent\<close> and \<^verbatim>\<open>Cookie\<close> headers to a target that refuses the connection sends the
  values \<^verbatim>\<open>Unknown\<close> and the empty string, which the inbound request did not carry, and
  the answer is the error dictionary.
\<close>

theorem content_forwarding_counterexample:
  "query (example_get [(''url'', [])] [(''Cookie'', ''a=b'')]) ''url'' = Some []
   \<and> snd (snd (content example_target (example_get [(''url'', [])] [(''Cookie'', ''a=b'')])
         fresh_response)) = []
   \<and> fst (content example_target (example_get [(''url'', [])] [(''Cookie'', ''a=b'')])
         fresh_response) = Returns (JObj [(''error'', JStr ''Missing 'url' in query parameters.'')])
   \<and> headers (example_get [(''url'', ''http://example.test'')] []) ''User-Agent'' = None
   \<and> content unreachable_target (example_get [(''url'', ''http://example.test'')] [])
         fresh_response =
       (Returns (JObj [(''error'', JStr ''Connection refused'')]),
        \<lparr>status = 500, content_type = ''text/html; charset=UTF-8''\<rparr>,
        [Get ''http://example.test'' [(''User-Agent'', ''Unknown''), (''Cookie'', [])]])"
  by (simp add: content_def example_get_def example_target_def unreachable_target_def
      fresh_response_def get_default_def)

text \<open>
  C6. A GET /content request whose outbound request raises a
  \<^verbatim>\<open>RequestException\<close> is answered with status 500 and the dictionary whose only
  field, \<^verbatim>\<open>error\<close>, is the text of the exception. The handler takes nothing from the
  solve services: they are not among its arguments.
\<close>

theorem content_target_unreachable:
  assumes "query rq ''url'' = Some u" and "u \<noteq> []"
    and "g u (forwarded_headers rq) = Raises (RequestException msg)"
  shows "content g rq resp =
     (Returns (JObj [(''error'', JStr msg)]), resp\<lparr>status := 500\<rparr>,
      [Get u (forwarded_headers rq)])"
  using assms(3) by (simp add: content_forwards [OF assms(1,2)])

theorem content_target_unreachable_witness:
  "query (example_get [(''url'', ''http://10.0.0.1:9'')] [(''Cookie'', ''sid=1'')]) ''url''
       = Some ''http://10.0.0.1:9''
   \<and> ''http://10.0.0.1:9'' \<noteq> []
   \<and> unreachable_target ''http://10.0.0.1:9''
         (forwarded_headers (example_get [(''url'', ''http://10.0.0.1:9'')] [(''Cookie'', ''sid=1'')]))
       = Raises (RequestException ''Connection refused'')
   \<and> content unreachable_target
         (example_get [(''url'', ''http://10.0.0.1:9'')] [(''Cookie'', ''sid=1'')]) fresh_response =
       (Returns (JObj [(''error'', JStr ''Connection refused'')]),
        \<lparr>status = 500, content_type = ''text/html; charset=UTF-8''\<rparr>,
        [Get ''http://10.0.0.1:9'' [(''User-Agent'', ''Unknown''), (''Cookie'', ''sid=1'')]])"
  using content_target_unreachable
    [of "example_get [(''url'', ''http://10.0.0.1:9'')] [(''Cookie'', ''sid=1'')]"
        "''http://10.0.0.1:9''" unreachable_target "''Connection refused''" fresh_response]
  by (simp add: example_get_def unreachable_target_def forwarded_headers_def get_default_def
      fresh_response_def)

text \<open>
  C10. A GET /content request whose outbound request completes, with whatever status
  code of the target, leaves the handler with the status 200 of a new Bottle response
  and returns a dictionary whose \<^verbatim>\<open>message\<close> is \<^verbatim>\<open>Request forwarded successfully\<close>; the
  target's status code appears in the field \<^verbatim>\<open>status\<close> of that dictionary and has no
  influence on the outer status.
\<close>

theorem content_completed_is_200:
  assumes "query rq ''url'' = Some u" and "u \<noteq> []"
    and "g u (forwarded_headers rq) = Returns ext"
  shows "status (fst (snd (content g rq fresh_response))) = 200
     \<and> (\<exists>d. fst (content g rq fresh_response) = Returns d
           \<and> field ''message'' d = Some (JStr ''Request forwarded successfully'')
           \<and> field ''status'' d = Some (JInt (ext_status_code ext)))"
  using assms(3) by (simp add: content_forwards [OF assms(1,2)] fresh_response_def)

theorem content_completed_is_200_witness:
  "query (example_get [(''url'', ''http://example.test/gone'')] []) ''url''
       = Some ''http://example.test/gone''
   \<and> ''http://example.test/gone'' \<noteq> []
   \<and> example_target ''http://example.test/gone''
         (forwarded_headers (example_get [(''url'', ''http://example.test/gone'')] []))
       = Returns \<lparr>ext_status_code = 404, ext_text = ''<h1>no such page</h1>''\<rparr>
   \<and> status (fst (snd (content example_target
         (example_get [(''url'', ''http://example.test/gone'')] []) fresh_response))) = 200
   \<and> (\<exists>d. fst (content example_target
         (example_get [(''url'', ''http://example.test/gone'')] []) fresh_response) = Returns d
         \<and> field ''message'' d = Some (JStr ''Request forwarded successfully'')
         \<and> field ''status'' d = Some (JInt 404))"
  using content_completed_is_200
    [of "example_get [(''url'', ''http://example.test/gone'')] []"
        "''http://example.test/gone''" example_target
        "\<lparr>ext_status_code = 404, ext_text = ''<h1>no such page</h1>''\<rparr>"]
  by (simp add: example_get_def example_target_def)

subsection \<open>The error handler\<close>

text \<open>
  C7. For the \<^verbatim>\<open>HTTPError\<close> of a request that no route matches (and for every other
  one Bottle passes in), the error handler returns the JSON text of an object with
  exactly the two fields \<^verbatim>\<open>error\<close>, the body text of the error, and \<^verbatim>\<open>status_code\<close>,
  its HTTP status (404 for an unmatched route), and sets the content type to
  \<^verbatim>\<open>application/json\<close>, leaving the status as Bottle set it.
\<close>

theorem default_error_handler_json:
  "fst (default_error_handler json_dumps res resp) = json_dumps (error_dict res)
   \<and> keys (error_dict res) = [''error'', ''status_code'']
   \<and> field ''error'' (error_dict res) = Some (JStr (body res))
   \<and> field ''status_code'' (error_dict res) = Some (JInt (status_code res))
   \<and> content_type (snd (default_error_handler json_dumps res resp)) = ''application/json''
   \<and> status (snd (default_error_handler json_dumps res resp)) = status resp"
  by (simp add: default_error_handler_def error_dict_def)

theorem default_error_handler_json_witness:
  "keys (error_dict example_not_found) = [''error'', ''status_code'']
   \<and> field ''error'' (error_dict example_not_found) = Some (JStr (body example_not_found))
   \<and> field ''status_code'' (error_dict example_not_found) = Some (JInt 404)
   \<and> content_type (snd (default_error_handler (\<lambda>v. []) example_not_found
         (fresh_response\<lparr>status := 404\<rparr>))) = ''application/json''
   \<and> status (snd (default_error_handler (\<lambda>v. []) example_not_found
         (fresh_response\<lparr>status := 404\<rparr>))) = 404"
  using default_error_handler_json
    [of "\<lambda>v. []" example_not_found "fresh_response\<lparr>status := 404\<rparr>"]
  by (simp add: example_not_found_def)

subsection \<open>The start-up script\<close>

lemma run_steps_all_return:
  "\<forall>s \<in> set xs. ext s = Returns () \<Longrightarrow>
   run_steps ext (xs @ ys) = (xs @ fst (run_steps ext ys), snd (run_steps ext ys))"
  by (induction xs) simp_all

lemma run_steps_stops:
  "\<exists>s \<in> set xs. ext s \<noteq> Returns () \<Longrightarrow> run_steps ext (xs @ ys) = run_steps ext xs"
proof (induction xs)
  case Nil
  then show ?case by simp
next
  case (Cons x xs)
  show ?case
  proof (cases "ext x")
    case (Returns u)
    with Cons.prems have "\<exists>s \<in> set xs. ext s \<noteq> Returns ()" by auto
    from Cons.IH [OF this] Returns show ?thesis by simp
  qed simp_all
qed

lemma run_steps_started: "set (fst (run_steps ext xs)) \<subseteq> set xs"
  by (induction xs) (auto split: outcome.splits)

lemma run_steps_raises_last:
  "ext t = Raises e \<Longrightarrow> \<forall>s \<in> set xs. ext s = Returns () \<Longrightarrow>
   run_steps ext (xs @ t # ys) = (xs @ [t], Raises e)"
  by (induction xs) simp_all

lemma main_steps_split:
  "\<exists>pre post. main_steps os_name sel = pre @ self_test sel # post @ [RunServer]
     \<and> RunServer \<notin> set pre \<and> RunServer \<notin> set post \<and> self_test sel \<noteq> RunServer
     \<and> TestBrowserInstallationNd \<notin> set pre \<and> TestBrowserInstallationUc \<notin> set pre
     \<and> TestBrowserInstallationNd \<notin> set post \<and> TestBrowserInstallationUc \<notin> set post"
proof -
  let ?pre = "(if os_name = ''nt'' then [FreezeSupport] else []) @
     [SetCaBundle, GetConfigLogHtml, GetConfigHeadless, ParsePort, GetDriverSelection,
      ConfigureLogging, LogVersion, GetCurrentPlatform]"
  let ?post = "[InstallLoggerPlugin, InstallErrorPlugin, PrometheusSetup, InstallPrometheusPlugin]"
  have "main_steps os_name sel = ?pre @ self_test sel # ?post @ [RunServer]"
    by (simp add: main_steps_def)
  moreover have "RunServer \<notin> set ?pre" "RunServer \<notin> set ?post" "self_test sel \<noteq> RunServer"
    "TestBrowserInstallationNd \<notin> set ?pre" "TestBrowserInstallationUc \<notin> set ?pre"
    "TestBrowserInstallationNd \<notin> set ?post" "TestBrowserInstallationUc \<notin> set ?post"
    by (simp_all add: self_test_def)
  ultimately show ?thesis by blast
qed

lemma server_started_only_after_self_test:
  assumes steps: "steps = pre @ t # post @ [RunServer]"
    and nopre: "RunServer \<notin> set pre" and nopost: "RunServer \<notin> set post" and t: "t \<noteq> RunServer"
    and started: "RunServer \<in> set (fst (run_steps ext steps))"
  shows "ext t = Returns () \<and> started_before t RunServer (fst (run_steps ext steps))
     \<and> fst (run_steps ext steps) = steps"
proof -
  have all: "\<forall>s \<in> set (pre @ t # post). ext s = Returns ()"
  proof (rule ccontr)
    assume "\<not> ?thesis"
    then have "\<exists>s \<in> set (pre @ t # post). ext s \<noteq> Returns ()" by blast
    from run_steps_stops [OF this, of "[RunServer]"]
    have "run_steps ext steps = run_steps ext (pre @ t # post)" by (simp add: steps)
    with started have "RunServer \<in> set (fst (run_steps ext (pre @ t # post)))" by simp
    with run_steps_started [of ext "pre @ t # post"] nopre nopost t show False by auto
  qed
  then have ok: "ext t = Returns ()" by simp
  from run_steps_all_return [OF all, of "[RunServer]"]
  have tr: "fst (run_steps ext steps) = steps"
    by (simp add: steps split: outcome.splits)
  have "takeWhile (\<lambda>s. s \<noteq> RunServer) ((pre @ t # post) @ [RunServer]) =
      (pre @ t # post) @ takeWhile (\<lambda>s. s \<noteq> RunServer) [RunServer]"
    using nopre nopost t by (intro takeWhile_append2) auto
  then have "takeWhile (\<lambda>s. s \<noteq> RunServer) steps = pre @ t # post"
    by (simp add: steps)
  then have "started_before t RunServer steps" by (simp add: started_before_def)
  with ok tr show ?thesis by simp
qed

text \<open>
  C9. At start-up the self-test that belongs to the selection (the asynchronous one
  for \<^verbatim>\<open>"nodriver"\<close>, the synchronous one otherwise) runs before the web server: whenever
  \<^verbatim>\<open>run\<close> is reached, that self-test was started earlier and has returned, and the other
  self-test was never started. A self-test that raises keeps \<^verbatim>\<open>run\<close> from ever being
  reached, and when the self-test was started the script ends with its exception.
\<close>

theorem main_self_test_before_server:
  "(RunServer \<in> set (fst (main version_info os_name sel ext)) \<longrightarrow>
      ext (self_test sel) = Returns ()
      \<and> started_before (self_test sel) RunServer (fst (main version_info os_name sel ext))
      \<and> (if sel = ''nodriver'' then TestBrowserInstallationUc else TestBrowserInstallationNd)
          \<notin> set (fst (main version_info os_name sel ext)))
   \<and> (ext (self_test sel) \<noteq> Returns () \<longrightarrow>
      RunServer \<notin> set (fst (main version_info os_name sel ext))
      \<and> snd (main version_info os_name sel ext) \<noteq> Returns ())
   \<and> (\<forall>e. ext (self_test sel) = Raises e
          \<and> self_test sel \<in> set (fst (main version_info os_name sel ext)) \<longrightarrow>
      snd (main version_info os_name sel ext) = Raises e
      \<and> last (fst (main version_info os_name sel ext)) = self_test sel)"
proof -
  obtain pre post where split: "main_steps os_name sel = pre @ self_test sel # post @ [RunServer]"
    and nopre: "RunServer \<notin> set pre" and nopost: "RunServer \<notin> set post"
    and t: "self_test sel \<noteq> RunServer"
    and others: "TestBrowserInstallationNd \<notin> set pre" "TestBrowserInstallationUc \<notin> set pre"
      "TestBrowserInstallationNd \<notin> set post" "TestBrowserInstallationUc \<notin> set post"
    using main_steps_split [of os_name sel] by blast
  let ?m = "main version_info os_name sel ext"
  let ?other = "if sel = ''nodriver'' then TestBrowserInstallationUc else TestBrowserInstallationNd"
  have sub: "set (fst ?m) \<subseteq> set (main_steps os_name sel)"
    using run_steps_started [of ext "main_steps os_name sel"] by (simp add: main_def)
  have other: "?other \<notin> set (main_steps os_name sel)"
    using others by (simp add: split self_test_def)
  have a: "ext (self_test sel) = Returns () \<and> started_before (self_test sel) RunServer (fst ?m)
      \<and> ?other \<notin> set (fst ?m)" if run: "RunServer \<in> set (fst ?m)"
  proof -
    from run have m: "?m = run_steps ext (main_steps os_name sel)"
      by (auto simp: main_def split: if_splits)
    from server_started_only_after_self_test [OF split nopre nopost t] run m
    have "ext (self_test sel) = Returns ()"
      "started_before (self_test sel) RunServer (fst ?m)" by simp_all
    moreover from sub other have "?other \<notin> set (fst ?m)" by blast
    ultimately show ?thesis by simp
  qed
  have b: "RunServer \<notin> set (fst ?m) \<and> snd ?m \<noteq> Returns ()"
    if bad: "ext (self_test sel) \<noteq> Returns ()"
  proof -
    from a bad have norun: "RunServer \<notin> set (fst ?m)" by blast
    have "snd ?m \<noteq> Returns ()"
    proof (cases "fst version_info < 3 \<or> (fst version_info = 3 \<and> snd version_info < 9)")
      case True
      then show ?thesis by (simp add: main_def)
    next
      case False
      show ?thesis
      proof (cases "\<forall>s \<in> set pre. ext s = Returns ()")
        case True
        from run_steps_all_return [OF True, of "self_test sel # post @ [RunServer]"] bad False
        show ?thesis by (cases "ext (self_test sel)") (simp_all add: main_def split)
      next
        case nok: False
        then have ex: "\<exists>s \<in> set pre. ext s \<noteq> Returns ()" by blast
        have "snd (run_steps ext pre) \<noteq> Returns ()" using ex
        proof (induction pre)
          case Nil
          then show ?case by simp
        next
          case (Cons x xs)
          then show ?case by (cases "ext x") auto
        qed
        with run_steps_stops [OF ex, of "self_test sel # post @ [RunServer]"] False
        show ?thesis by (simp add: main_def split)
      qed
    qed
    with norun show ?thesis by simp
  qed
  have c: "snd ?m = Raises e \<and> last (fst ?m) = self_test sel"
    if raises: "ext (self_test sel) = Raises e" and started: "self_test sel \<in> set (fst ?m)" for e
  proof -
    from started have m: "?m = run_steps ext (main_steps os_name sel)"
      by (auto simp: main_def split: if_splits)
    have "\<forall>s \<in> set pre. ext s = Returns ()"
    proof (rule ccontr)
      assume "\<not> ?thesis"
      then have ex: "\<exists>s \<in> set pre. ext s \<noteq> Returns ()" by blast
      from run_steps_stops [OF ex, of "self_test sel # post @ [RunServer]"]
      have "?m = run_steps ext pre" by (simp add: m split)
      with started run_steps_started [of ext pre] have "self_test sel \<in> set pre" by auto
      with others show False by (auto simp: self_test_def split: if_splits)
    qed
    from run_steps_raises_last [OF raises this, of "post @ [RunServer]"]
    show ?thesis by (simp add: m split)
  qed
  from a b c show ?thesis by blast
qed

theorem main_self_test_before_server_witness:
  "RunServer \<in> set (fst (main (3, 11) ''posix'' ''nodriver'' all_fine))
   \<and> started_before TestBrowserInstallationNd RunServer
       (fst (main (3, 11) ''posix'' ''nodriver'' all_fine))
   \<and> TestBrowserInstallationUc \<notin> set (fst (main (3, 11) ''posix'' ''nodriver'' all_fine))
   \<and> no_browser (self_test ''undetected-chromedriver'') = Raises (Exception ''SystemExit: 1'')
   \<and> self_test ''undetected-chromedriver''
       \<in> set (fst (main (3, 11) ''posix'' ''undetected-chromedriver'' no_browser))
   \<and> RunServer \<notin> set (fst (main (3, 11) ''posix'' ''undetected-chromedriver'' no_browser))
   \<and> snd (main (3, 11) ''posix'' ''undetected-chromedriver'' no_browser)
       = Raises (Exception ''SystemExit: 1'')
   \<and> last (fst (main (3, 11) ''posix'' ''undetected-chromedriver'' no_browser))
       = TestBrowserInstallationUc"
proof -
  have run: "RunServer \<in> set (fst (main (3, 11) ''posix'' ''nodriver'' all_fine))"
    by (simp add: main_def main_steps_def self_test_def all_fine_def)
  from main_self_test_before_server [of "(3, 11)" "''posix''" "''nodriver''" all_fine] run
  have fine: "started_before (self_test ''nodriver'') RunServer
      (fst (main (3, 11) ''posix'' ''nodriver'' all_fine))"
    "TestBrowserInstallationUc \<notin> set (fst (main (3, 11) ''posix'' ''nodriver'' all_fine))"
    by simp_all
  have raises: "no_browser (self_test ''undetected-chromedriver'')
      = Raises (Exception ''SystemExit: 1'')"
    by (simp add: no_browser_def self_test_def)
  have started: "self_test ''undetected-chromedriver''
      \<in> set (fst (main (3, 11) ''posix'' ''undetected-chromedriver'' no_browser))"
    by (simp add: main_def main_steps_def self_test_def no_browser_def)
  from main_self_test_before_server
    [of "(3, 11)" "''posix''" "''undetected-chromedriver''" no_browser] raises started
  have failed: "RunServer \<notin> set (fst (main (3, 11) ''posix'' ''undetected-chromedriver'' no_browser))"
    "snd (main (3, 11) ''posix'' ''undetected-chromedriver'' no_browser)
       = Raises (Exception ''SystemExit: 1'')"
    "last (fst (main (3, 11) ''posix'' ''undetected-chromedriver'' no_browser))
       = self_test ''undetected-chromedriver''"
    by simp_all
  from run fine raises started failed show ?thesis by (simp add: self_test_def)
qed

subsection \<open>Validation before dispatch\<close>

lemma V1RequestBase_spec_accepts_iff:
  "(\<exists>req. V1RequestBase_spec known well_formed dflt b = Returns req)
     = (\<not> malformed well_formed b \<and> \<not> unknown_command known b)"
  by (auto simp: V1RequestBase_spec_def malformed_def unknown_command_def
      split: option.splits)

lemma V1RequestBase_spec_rejects:
  assumes "malformed well_formed b \<or> unknown_command known b"
  shows "\<exists>f. V1RequestBase_spec known well_formed dflt b = Raises (ValidationError f)"
  using assms
  by (auto simp: V1RequestBase_spec_def malformed_def unknown_command_def
      split: option.splits)

lemma controller_v1_raises_early:
  assumes "json rq = Raises e \<or> (\<exists>j. json rq = Returns j \<and> V1RequestBase m j = Raises e)"
  shows "returned (controller_v1 m rq loops resp) = Raises e
     \<and> events_of (controller_v1 m rq loops resp) = []
     \<and> loops_of (controller_v1 m rq loops resp) = loops"
  using assms by (auto simp: controller_v1_def returned_def events_of_def loops_of_def)

text \<open>
  C3. With the validation of the specification in the place of \<^verbatim>\<open>V1RequestBase\<close>, a POST
  /v1 request whose body is malformed (Bottle refuses it as invalid JSON with its
  \<^verbatim>\<open>HTTPError\<close> 400, or it is no JSON body, or it has no command, no well-formed URL or a
  timeout that is not positive) or whose command is unknown is answered with status
  400, and the handler has called neither service and created no event loop: line 56
  raises before the branch of line 57 is reached.
\<close>

theorem controller_v1_rejects_before_backend:
  assumes "V1RequestBase m = V1RequestBase_spec known well_formed dflt"
    and "(\<exists>msg. json rq = Raises (HTTPError 400 msg))
       \<or> (\<exists>b. json rq = Returns b \<and> (malformed well_formed b \<or> unknown_command known b))"
  shows "surface_status (controller_v1 m rq loops fresh_response) = Some 400
     \<and> (\<exists>e. returned (controller_v1 m rq loops fresh_response) = Raises e)
     \<and> events_of (controller_v1 m rq loops fresh_response) = []
     \<and> sync_calls (events_of (controller_v1 m rq loops fresh_response)) = []
     \<and> nd_calls (events_of (controller_v1 m rq loops fresh_response)) = []
     \<and> loops_of (controller_v1 m rq loops fresh_response) = loops"
proof -
  consider (invalid) msg where "json rq = Raises (HTTPError 400 msg)"
    | (rejected) b where "json rq = Returns b"
        "malformed well_formed b \<or> unknown_command known b"
    using assms(2) by blast
  then show ?thesis
  proof cases
    case invalid
    then have "json rq = Raises (HTTPError 400 msg)
        \<or> (\<exists>j. json rq = Returns j \<and> V1RequestBase m j = Raises (HTTPError 400 msg))"
      by simp
    from controller_v1_raises_early [OF this, of loops fresh_response]
    show ?thesis by (simp add: surface_status_def)
  next
    case rejected
    from V1RequestBase_spec_rejects [OF rejected(2), of dflt]
    obtain f where "V1RequestBase m b = Raises (ValidationError f)"
      using assms(1) by auto
    with rejected(1) have "json rq = Raises (ValidationError f)
        \<or> (\<exists>j. json rq = Returns j \<and> V1RequestBase m j = Raises (ValidationError f))"
      by simp
    from controller_v1_raises_early [OF this, of loops fresh_response]
    show ?thesis by (simp add: surface_status_def)
  qed
qed

theorem controller_v1_rejects_before_backend_witness:
  "V1RequestBase (validating_modules ''nodriver'')
       = V1RequestBase_spec example_commands (\<lambda>u. u \<noteq> []) 60000
   \<and> unknown_command example_commands (example_body ''request.put'' None)
   \<and> surface_status (controller_v1 (validating_modules ''nodriver'')
         (post_body (Returns (example_body ''request.put'' None))) 0 fresh_response) = Some 400
   \<and> events_of (controller_v1 (validating_modules ''nodriver'')
         (post_body (Returns (example_body ''request.put'' None))) 0 fresh_response) = []
   \<and> malformed (\<lambda>u. u \<noteq> []) (example_body ''request.get'' (Some (- 5)))
   \<and> surface_status (controller_v1 (validating_modules ''nodriver'')
         (post_body (Returns (example_body ''request.get'' (Some (- 5))))) 0 fresh_response)
       = Some 400
   \<and> events_of (controller_v1 (validating_modules ''nodriver'')
         (post_body (Returns (example_body ''request.get'' (Some (- 5))))) 0 fresh_response) = []
   \<and> malformed (\<lambda>u. u \<noteq> []) None
   \<and> surface_status (controller_v1 (validating_modules ''nodriver'')
         (post_body (Returns None)) 0 fresh_response) = Some 400
   \<and> surface_status (controller_v1 (validating_modules ''nodriver'')
         (post_body (Raises (HTTPError 400 ''Invalid JSON''))) 0 fresh_response) = Some 400
   \<and> events_of (controller_v1 (validating_modules ''nodriver'')
         (post_body (Raises (HTTPError 400 ''Invalid JSON''))) 0 fresh_response) = []"
proof -
  have m: "V1RequestBase (validating_modules ''nodriver'')
      = V1RequestBase_spec example_commands (\<lambda>u. u \<noteq> []) 60000"
    by (simp add: validating_modules_def)
  have unknown: "unknown_command example_commands (example_body ''request.put'' None)"
    by (simp add: unknown_command_def example_body_def example_commands_def)
  have timeout: "malformed (\<lambda>u. u \<noteq> []) (example_body ''request.get'' (Some (- 5)))"
    by (simp add: malformed_def example_body_def)
  have nobody: "malformed (\<lambda>u. u \<noteq> []) None"
    by (simp add: malformed_def)
  have a: "surface_status (controller_v1 (validating_modules ''nodriver'')
        (post_body (Returns (example_body ''request.put'' None))) 0 fresh_response) = Some 400"
    "events_of (controller_v1 (validating_modules ''nodriver'')
        (post_body (Returns (example_body ''request.put'' None))) 0 fresh_response) = []"
    using controller_v1_rejects_before_backend
      [OF m, of "post_body (Returns (example_body ''request.put'' None))" 0] unknown
    by (simp_all add: post_body_def)
  have b: "surface_status (controller_v1 (validating_modules ''nodriver'')
        (post_body (Returns (example_body ''request.get'' (Some (- 5))))) 0 fresh_response)
        = Some 400"
    "events_of (controller_v1 (validating_modules ''nodriver'')
        (post_body (Returns (example_body ''request.get'' (Some (- 5))))) 0 fresh_response) = []"
    using controller_v1_rejects_before_backend
      [OF m, of "post_body (Returns (example_body ''request.get'' (Some (- 5))))" 0] timeout
    by (simp_all add: post_body_def)
  have c: "surface_status (controller_v1 (validating_modules ''nodriver'')
        (post_body (Returns None)) 0 fresh_response) = Some 400"
    using controller_v1_rejects_before_backend [OF m, of "post_body (Returns None)" 0] nobody
    by (simp add: post_body_def)
  have d: "surface_status (controller_v1 (validating_modules ''nodriver'')
        (post_body (Raises (HTTPError 400 ''Invalid JSON''))) 0 fresh_response) = Some 400"
    "events_of (controller_v1 (validating_modules ''nodriver'')
        (post_body (Raises (HTTPError 400 ''Invalid JSON''))) 0 fresh_response) = []"
    using controller_v1_rejects_before_backend
      [OF m, of "post_body (Raises (HTTPError 400 ''Invalid JSON''))" 0]
    by (simp_all add: post_body_def)
  from m unknown timeout nobody a b c d show ?thesis by simp
qed

end
